theory Spec2Isabelle
  imports Main
begin

section \<open>Go values used by the client\<close>

text \<open>
  The package is a WinRM client written in Go: two transports (\<open>auth.go\<close>, the mutual-TLS
  one, and the basic-auth one), and the client with its \<open>Run*\<close> family. Go strings and
  byte slices are lists of \<open>char\<close> (bytes). A Go \<open>error\<close> is a message together with the
  error it wraps: \<open>errors.New(s)\<close> and \<open>fmt.Errorf\<close> without \<open>%w\<close> wrap nothing,
  \<open>fmt.Errorf("... %w", err)\<close> puts the message of \<open>err\<close> in place of the verb and wraps
  \<open>err\<close>. A nil error is \<open>None\<close>. Pointer arguments are taken to be non-nil.
\<close>

type_synonym bytes = "char list"

datatype error = Error (message: string) (unwrap: "error option")

definition errors_New :: "string \<Rightarrow> error" where
  "errors_New s = Error s None"

text \<open>The verb \<open>%d\<close> of \<open>fmt\<close> on an \<open>int\<close>: decimal digits, with a sign when negative.\<close>

fun digits10 :: "nat \<Rightarrow> string" where
  "digits10 n =
     (if n < 10 then [''0123456789'' ! n]
      else digits10 (n div 10) @ [''0123456789'' ! (n mod 10)])"

declare digits10.simps [simp del]

definition fmt_d :: "int \<Rightarrow> string" where
  "fmt_d i = (if i < 0 then CHR ''-'' # digits10 (nat (- i)) else digits10 (nat i))"

text \<open>\<open>strings.HasPrefix\<close> and \<open>strings.Contains\<close>.\<close>

fun strings_HasPrefix :: "string \<Rightarrow> string \<Rightarrow> bool" where
  "strings_HasPrefix s [] = True"
| "strings_HasPrefix [] (p # ps) = False"
| "strings_HasPrefix (c # s) (p # ps) = (c = p \<and> strings_HasPrefix s ps)"

fun strings_Contains :: "string \<Rightarrow> string \<Rightarrow> bool" where
  "strings_Contains [] substr = (substr = [])"
| "strings_Contains (c # s) substr =
     (strings_HasPrefix (c # s) substr \<or> strings_Contains s substr)"

text \<open>
  \<open>base64.StdEncoding.EncodeToString\<close>, which \<open>net/http\<close> uses for the basic-auth
  header: three bytes become four characters of the standard alphabet, the last group is
  padded with \<open>=\<close>.
\<close>

definition b64_char :: "nat \<Rightarrow> char" where
  "b64_char n =
     ''ABCDEFGHIJKLMNOPQRSTUVWXYZabcdefghijklmnopqrstuvwxyz0123456789+/'' ! n"

fun b64_groups :: "nat list \<Rightarrow> string" where
  "b64_groups [] = []"
| "b64_groups [a] = [b64_char (a div 4), b64_char ((a mod 4) * 16), CHR ''='', CHR ''='']"
| "b64_groups [a, b] =
     [b64_char (a div 4), b64_char ((a mod 4) * 16 + b div 16),
      b64_char ((b mod 16) * 4), CHR ''='']"
| "b64_groups (a # b # c # rest) =
     [b64_char (a div 4), b64_char ((a mod 4) * 16 + b div 16),
      b64_char ((b mod 16) * 4 + c div 64), b64_char (c mod 64)] @ b64_groups rest"

definition base64_StdEncoding :: "bytes \<Rightarrow> string" where
  "base64_StdEncoding bs = b64_groups (map of_char bs)"

text \<open>
  An \<open>http.Header\<close> maps a canonical key to its values. \<open>Get\<close> returns the first value
  of the key, or the empty string; \<open>Set\<close> replaces the values of the key. The two keys
  the package uses, \<open>Content-Type\<close> and \<open>Authorization\<close>, are already in canonical form.
\<close>

type_synonym header = "string \<Rightarrow> string list option"

definition Header_Get :: "header \<Rightarrow> string \<Rightarrow> string" where
  "Header_Get h key = (case h key of None \<Rightarrow> [] | Some [] \<Rightarrow> [] | Some (v # vs) \<Rightarrow> v)"

definition Header_Set :: "header \<Rightarrow> string \<Rightarrow> string \<Rightarrow> header" where
  "Header_Set h key v = h(key \<mapsto> [v])"

text \<open>
  A response body is a stream: what \<open>io.ReadAll\<close> obtains from it (the bytes and the
  read error), the error \<open>Close\<close> returns, and how often it has been read and closed.
\<close>

record body_stream =
  content :: bytes
  read_error :: "error option"
  close_error :: "error option"
  reads :: nat
  closes :: nat

definition io_ReadAll :: "body_stream \<Rightarrow> (bytes \<times> error option) \<times> body_stream" where
  "io_ReadAll b = ((content b, read_error b), b\<lparr>reads := reads b + 1\<rparr>)"

definition Body_Close :: "body_stream \<Rightarrow> error option \<times> body_stream" where
  "Body_Close b = (close_error b, b\<lparr>closes := closes b + 1\<rparr>)"

record http_response =
  StatusCode :: int
  Header :: header
  Body :: body_stream

record http_request =
  Method :: string
  URL :: string
  ReqHeader :: header
  ReqBody :: string

text \<open>\<open>Request.SetBasicAuth\<close> of \<open>net/http\<close>.\<close>

definition SetBasicAuth :: "http_request \<Rightarrow> string \<Rightarrow> string \<Rightarrow> http_request" where
  "SetBasicAuth req user pass =
     req\<lparr>ReqHeader := Header_Set (ReqHeader req) ''Authorization''
       (''Basic '' @ base64_StdEncoding (user @ '':'' @ pass))\<rparr>"

section \<open>Endpoint, TLS configuration and the two transports\<close>

text \<open>
  Modelled from the spec: the struct \<open>Endpoint\<close> is declared outside the three source
  files; its fields are the ones the spec lists and the transports read. A nil and an
  empty byte slice are both \<open>[]\<close> (the code treats them alike).
\<close>

record Endpoint =
  Host :: string
  Port :: int
  HTTPS :: bool
  Insecure :: bool
  TLSServerName :: string
  CACert :: bytes
  Key :: bytes
  Cert :: bytes
  Timeout :: int

datatype Certificate = Certificate bytes bytes

datatype CertPool = CertPool "bytes list"

datatype RenegotiationSupport =
  RenegotiateNever | RenegotiateOnceAsClient | RenegotiateFreelyAsClient

record tls_Config =
  Renegotiation :: RenegotiationSupport
  InsecureSkipVerify :: bool
  Certificates :: "Certificate list"
  MaxVersion :: nat
  ServerName :: string
  RootCAs :: "CertPool option"

text \<open>
  A dial function is either the \<open>Dial\<close> method of a \<open>net.Dialer\<close> with its two timeouts
  (in nanoseconds) or a function the caller supplied, known by a name; likewise the proxy
  resolver.
\<close>

datatype dial_func = Dialer_Dial int int | Custom_Dial nat

datatype proxy_func = ProxyFromEnvironment | Custom_Proxy nat

record http_Transport =
  Proxy :: proxy_func
  TLSClientConfig :: tls_Config
  Dial :: dial_func
  ResponseHeaderTimeout :: int

definition Second :: int where
  "Second = 1000000000"

definition VersionTLS12 :: nat where
  "VersionTLS12 = 771"

record ClientAuthRequest =
  transport :: "http_Transport option"
  dial :: "nat option"

record clientRequest =
  transport :: "http_Transport option"
  dial :: "nat option"
  proxyfunc :: "nat option"

text \<open>The implementations of the interface \<open>Transporter\<close> in the package.\<close>

datatype Transporter =
  BasicAuth clientRequest
| MutualTLS ClientAuthRequest

section \<open>Parameters, Client, Shell and Command\<close>

text \<open>
  Modelled from the spec: the struct \<open>Parameters\<close> is declared outside the three source
  files; its fields are the ones the spec lists (operation timeout, locale, envelope
  size, optional dialer, optional transport factory). \<open>TransportDecorator\<close> is a function
  without arguments, so it is given by the Transporter it returns.
\<close>

record Parameters =
  Timeout :: string
  Locale :: string
  EnvelopeSize :: int
  Dial :: "nat option"
  TransportDecorator :: "Transporter option"

record Client =
  Parameters :: Parameters
  username :: string
  password :: string
  useHTTPS :: bool
  url :: string
  http :: Transporter

text \<open>A \<open>soap.SoapMessage\<close> is known here by its serialisation, \<open>request.String()\<close>.\<close>

type_synonym SoapMessage = string

text \<open>\<open>NewShell\<close> builds \<open>&Shell{client: c, id: id}\<close>.\<close>

record Shell =
  shell_client :: Client
  shell_id :: string

text \<open>
  The type \<open>Command\<close> and its methods are outside the three source files. A command is
  known here by what the orchestration observes of it once \<open>Wait\<close> and \<open>Close\<close> have
  returned, each as a function of the input that was fed to its stdin (\<open>None\<close> when
  nothing was fed): the bytes of \<open>cmd.Stdout\<close> and \<open>cmd.Stderr\<close>, \<open>cmd.ExitCode()\<close> and
  \<open>cmd.err\<close>.
\<close>

record Command =
  Stdout :: "string option \<Rightarrow> string"
  Stderr :: "string option \<Rightarrow> string"
  ExitCode :: "string option \<Rightarrow> int"
  cmd_err :: "string option \<Rightarrow> error option"

text \<open>
  What the source files call and do not define: the standard library (\<open>crypto/tls\<close>,
  \<open>crypto/x509\<close>, \<open>net/http\<close>) and the rest of the package (\<open>Endpoint.url\<close>,
  \<open>DefaultParameters\<close>, the envelope builder and parser, \<open>Powershell\<close>, the methods of
  \<open>Shell\<close>). Every definition below takes them as a parameter.
  \<^item> \<open>X509KeyPair\<close>: \<open>tls.X509KeyPair(certPEM, keyPEM)\<close>.
  \<^item> \<open>PEM_ok\<close>: whether \<open>CertPool.AppendCertsFromPEM\<close> finds a certificate in the bytes.
  \<^item> \<open>NewRequest_error\<close>: the error with which \<open>http.NewRequest(method, url, body)\<close>
    rejects its arguments, if it does.
  \<^item> \<open>Client_Do\<close>: \<open>http.Client.Do\<close> of a client built on the given transport. The
    client has no \<open>CheckRedirect\<close>, so within one call the library follows redirects and
    sends the POST again on a 307 or 308; that happens inside \<open>Client_Do\<close>.
\<close>

record externals =
  X509KeyPair :: "bytes \<Rightarrow> bytes \<Rightarrow> error + Certificate"
  PEM_ok :: "bytes \<Rightarrow> bool"
  NewRequest_error :: "string \<Rightarrow> string \<Rightarrow> error option"
  Client_Do :: "http_Transport option \<Rightarrow> http_request \<Rightarrow> error + http_response"
  Endpoint_url :: "Endpoint \<Rightarrow> string"
  DefaultParameters :: Parameters
  NewOpenShellRequest :: "string \<Rightarrow> Parameters \<Rightarrow> SoapMessage"
  ParseOpenShellResponse :: "string \<Rightarrow> error + string"
  Powershell :: "string \<Rightarrow> string"
  ExecuteWithContext :: "Shell \<Rightarrow> string \<Rightarrow> error + Command"
  Shell_Close :: "Shell \<Rightarrow> error option"

section \<open>Configuring a transport\<close>

definition AppendCertsFromPEM :: "externals \<Rightarrow> CertPool \<Rightarrow> bytes \<Rightarrow> bool \<times> CertPool" where
  "AppendCertsFromPEM ext pool certs =
     (case pool of CertPool have \<Rightarrow>
        if PEM_ok ext certs then (True, CertPool (have @ [certs])) else (False, pool))"

definition readCACerts :: "externals \<Rightarrow> bytes \<Rightarrow> error + CertPool" where
  "readCACerts ext certs =
     (case AppendCertsFromPEM ext (CertPool []) certs of
        (False, certPool) \<Rightarrow> Inl (errors_New ''unable to read certificates'')
      | (True, certPool) \<Rightarrow> Inr certPool)"

text \<open>
  \<open>Transport\<close> has a pointer receiver: it returns its error and the receiver as the call
  leaves it. The mutual-TLS variant parses the key pair first and returns at once when
  that fails.
\<close>

definition ClientAuthRequest_Transport ::
    "externals \<Rightarrow> ClientAuthRequest \<Rightarrow> Endpoint \<Rightarrow> error option \<times> ClientAuthRequest" where
  "ClientAuthRequest_Transport ext c endpoint =
     (case X509KeyPair ext (Cert endpoint) (Key endpoint) of
        Inl e \<Rightarrow> (Some e, c)
      | Inr cert \<Rightarrow>
          (let dial = (case ClientAuthRequest.dial c of
                         None \<Rightarrow> Dialer_Dial (30 * Second) (30 * Second)
                       | Some d \<Rightarrow> Custom_Dial d);
               transport = \<lparr>Proxy = ProxyFromEnvironment,
                  TLSClientConfig = \<lparr>Renegotiation = RenegotiateOnceAsClient,
                    InsecureSkipVerify = Insecure endpoint, Certificates = [cert],
                    MaxVersion = VersionTLS12, ServerName = [], RootCAs = None\<rparr>,
                  Dial = dial, ResponseHeaderTimeout = Endpoint.Timeout endpoint\<rparr>
           in if CACert endpoint \<noteq> [] then
                (case readCACerts ext (CACert endpoint) of
                   Inl e \<Rightarrow> (Some e, c)
                 | Inr certPool \<Rightarrow>
                     (None, c\<lparr>ClientAuthRequest.transport := Some (transport\<lparr>TLSClientConfig :=
                        (TLSClientConfig transport)\<lparr>RootCAs := Some certPool\<rparr>\<rparr>)\<rparr>))
              else (None, c\<lparr>ClientAuthRequest.transport := Some transport\<rparr>)))"

definition clientRequest_Transport ::
    "externals \<Rightarrow> clientRequest \<Rightarrow> Endpoint \<Rightarrow> error option \<times> clientRequest" where
  "clientRequest_Transport ext c endpoint =
     (let dial = (case clientRequest.dial c of
                    None \<Rightarrow> Dialer_Dial (30 * Second) (30 * Second)
                  | Some d \<Rightarrow> Custom_Dial d);
          proxyfunc = (case clientRequest.proxyfunc c of
                         None \<Rightarrow> ProxyFromEnvironment
                       | Some f \<Rightarrow> Custom_Proxy f);
          transport = \<lparr>Proxy = proxyfunc,
             TLSClientConfig = \<lparr>Renegotiation = RenegotiateNever,
               InsecureSkipVerify = Insecure endpoint, Certificates = [],
               MaxVersion = 0, ServerName = TLSServerName endpoint, RootCAs = None\<rparr>,
             Dial = dial, ResponseHeaderTimeout = Endpoint.Timeout endpoint\<rparr>
      in if CACert endpoint \<noteq> [] then
           (case readCACerts ext (CACert endpoint) of
              Inl e \<Rightarrow> (Some e, c)
            | Inr certPool \<Rightarrow>
                (None, c\<lparr>clientRequest.transport := Some (transport\<lparr>TLSClientConfig :=
                   (TLSClientConfig transport)\<lparr>RootCAs := Some certPool\<rparr>\<rparr>)\<rparr>))
         else (None, c\<lparr>clientRequest.transport := Some transport\<rparr>))"

text \<open>The dynamic dispatch of \<open>client.http.Transport(endpoint)\<close>.\<close>

definition Transporter_Transport ::
    "externals \<Rightarrow> Transporter \<Rightarrow> Endpoint \<Rightarrow> error option \<times> Transporter" where
  "Transporter_Transport ext t endpoint =
     (case t of
        BasicAuth c \<Rightarrow>
          (case clientRequest_Transport ext c endpoint of (e, c') \<Rightarrow> (e, BasicAuth c'))
      | MutualTLS c \<Rightarrow>
          (case ClientAuthRequest_Transport ext c endpoint of (e, c') \<Rightarrow> (e, MutualTLS c')))"

section \<open>Reading a response\<close>

text \<open>
  \<open>parse\<close> (mutual-TLS) and \<open>body\<close> (basic-auth) are the same function twice. Each returns
  its two results and the response's body stream as the call leaves it. Their results are
  unnamed, so \<open>return string(body), nil\<close> fixes the results (the local \<open>body\<close> is
  \<open>data\<close> here) before the deferred function
  runs; the deferred function closes the stream and assigns to the local \<open>err\<close> only
  (\<open>err'\<close> below), which nothing reads afterwards.
\<close>

definition parse :: "http_response \<Rightarrow> (string \<times> error option) \<times> body_stream" where
  "parse response =
     (if strings_Contains (Header_Get (Header response) ''Content-Type'') ''application/soap+xml''
      then
        (case io_ReadAll (Body response) of ((data, err), stream) \<Rightarrow>
           (let results =
                  (case err of
                     Some e \<Rightarrow>
                       ([], Some (Error (''error while reading request body '' @ message e) (Some e)))
                   | None \<Rightarrow> (data, None))
            in case Body_Close stream of (errClose, stream') \<Rightarrow>
                 (let err' = (if errClose \<noteq> None \<and> err = None then errClose else err)
                  in (results, stream'))))
      else (([], Some (Error ''invalid content type'' None)), Body response))"

definition body :: "http_response \<Rightarrow> (string \<times> error option) \<times> body_stream" where
  "body response =
     (if strings_Contains (Header_Get (Header response) ''Content-Type'') ''application/soap+xml''
      then
        (case io_ReadAll (Body response) of ((data, err), stream) \<Rightarrow>
           (let results =
                  (case err of
                     Some e \<Rightarrow>
                       ([], Some (Error (''error while reading request body '' @ message e) (Some e)))
                   | None \<Rightarrow> (data, None))
            in case Body_Close stream of (errClose, stream') \<Rightarrow>
                 (let err' = (if errClose \<noteq> None \<and> err = None then errClose else err)
                  in (results, stream'))))
      else (([], Some (Error ''invalid content type'' None)), Body response))"

section \<open>Post\<close>

definition soapXML :: string where
  "soapXML = ''application/soap+xml''"

text \<open>
  \<open>http.NewRequest\<close>: the request with the given method, URL and body and no header of
  the caller's yet, or the error.
\<close>

definition NewRequest :: "externals \<Rightarrow> string \<Rightarrow> string \<Rightarrow> string \<Rightarrow> error + http_request" where
  "NewRequest ext method u b =
     (case NewRequest_error ext method u of
        Some e \<Rightarrow> Inl e
      | None \<Rightarrow> Inr \<lparr>Method = method, URL = u, ReqHeader = Map.empty, ReqBody = b\<rparr>)"

text \<open>
  What a call of \<open>Post\<close> returns and does: its two results, the requests it handed to
  \<open>httpClient.Do\<close> in order, and the body stream of the response it received, as the
  call leaves it.
\<close>

record post_outcome =
  returned :: "string \<times> error option"
  requests :: "http_request list"
  response_body :: "body_stream option"

text \<open>
  The results of \<open>Post\<close> are unnamed as well. \<open>return body, err\<close> copies the two locals
  into the results; the deferred function then runs and, on a status other than 200,
  assigns the pair \<open>locals'\<close> to the locals \<open>body\<close> and \<open>err\<close>. The results are what the
  return statement copied.
\<close>

definition ClientAuthRequest_Post ::
    "externals \<Rightarrow> ClientAuthRequest \<Rightarrow> Client \<Rightarrow> SoapMessage \<Rightarrow> post_outcome" where
  "ClientAuthRequest_Post ext c client request =
     (case NewRequest ext ''POST'' (url client) request of
        Inl e \<Rightarrow>
          \<lparr>returned = ([], Some (Error (''impossible to create http request '' @ message e) (Some e))),
           requests = [], response_body = None\<rparr>
      | Inr req0 \<Rightarrow>
          (let req1 = req0\<lparr>ReqHeader :=
                        Header_Set (ReqHeader req0) ''Content-Type'' (soapXML @ '';charset=UTF-8'')\<rparr>;
               req = req1\<lparr>ReqHeader := Header_Set (ReqHeader req1) ''Authorization''
                        ''http://schemas.dmtf.org/wbem/wsman/1/wsman/secprofile/https/mutual''\<rparr>
           in case Client_Do ext (ClientAuthRequest.transport c) req of
                Inl e \<Rightarrow>
                  \<lparr>returned = ([], Some (Error (''unknown error '' @ message e) (Some e))),
                   requests = [req], response_body = None\<rparr>
              | Inr resp \<Rightarrow>
                  (case parse resp of ((data, err), stream) \<Rightarrow>
                     (case err of
                        Some e \<Rightarrow>
                          \<lparr>returned = ([], Some (Error (''http response error: ''
                              @ fmt_d (StatusCode resp) @ '' - '' @ message e) (Some e))),
                           requests = [req], response_body = Some stream\<rparr>
                      | None \<Rightarrow>
                          (let results = (data, err);
                               locals' = (if StatusCode resp \<noteq> 200
                                  then ([], Some (Error (''http error '' @ fmt_d (StatusCode resp)
                                          @ '': '' @ data) None))
                                  else (data, err))
                           in \<lparr>returned = results, requests = [req],
                               response_body = Some stream\<rparr>)))))"

definition clientRequest_Post ::
    "externals \<Rightarrow> clientRequest \<Rightarrow> Client \<Rightarrow> SoapMessage \<Rightarrow> post_outcome" where
  "clientRequest_Post ext c client request =
     (case NewRequest ext ''POST'' (url client) request of
        Inl e \<Rightarrow>
          \<lparr>returned = ([], Some (Error (''impossible to create http request '' @ message e) (Some e))),
           requests = [], response_body = None\<rparr>
      | Inr req0 \<Rightarrow>
          (let req1 = req0\<lparr>ReqHeader :=
                        Header_Set (ReqHeader req0) ''Content-Type'' (soapXML @ '';charset=UTF-8'')\<rparr>;
               req = SetBasicAuth req1 (username client) (password client)
           in case Client_Do ext (clientRequest.transport c) req of
                Inl e \<Rightarrow>
                  \<lparr>returned = ([], Some (Error (''unknown error '' @ message e) (Some e))),
                   requests = [req], response_body = None\<rparr>
              | Inr resp \<Rightarrow>
                  (case body resp of ((data, err), stream) \<Rightarrow>
                     (case err of
                        Some e \<Rightarrow>
                          \<lparr>returned = ([], Some (Error (''http response error: ''
                              @ fmt_d (StatusCode resp) @ '' - '' @ message e) (Some e))),
                           requests = [req], response_body = Some stream\<rparr>
                      | None \<Rightarrow>
                          (let results = (data, err);
                               locals' = (if StatusCode resp \<noteq> 200
                                  then ([], Some (Error (''http error '' @ fmt_d (StatusCode resp)
                                          @ '': '' @ data) None))
                                  else (data, err))
                           in \<lparr>returned = results, requests = [req],
                               response_body = Some stream\<rparr>)))))"

text \<open>The dynamic dispatch of \<open>c.http.Post(c, request)\<close> in \<open>sendRequest\<close>.\<close>

definition sendRequest :: "externals \<Rightarrow> Client \<Rightarrow> SoapMessage \<Rightarrow> post_outcome" where
  "sendRequest ext c request =
     (case http c of
        BasicAuth t \<Rightarrow> clientRequest_Post ext t c request
      | MutualTLS t \<Rightarrow> ClientAuthRequest_Post ext t c request)"

section \<open>Building a Client\<close>

text \<open>
  \<open>NewClientWithParameters\<close> returns the pair \<open>(*Client, error)\<close>; \<open>params\<close> is the value
  its pointer argument points to. The transport is behind a pointer, so the Client that
  is returned sees what \<open>Transport\<close> configured.
\<close>

definition NewClientWithParameters ::
    "externals \<Rightarrow> Endpoint \<Rightarrow> string \<Rightarrow> string \<Rightarrow> Parameters \<Rightarrow> Client option \<times> error option" where
  "NewClientWithParameters ext endpoint user pass params =
     (let client0 = \<lparr>Parameters = params, username = user, password = pass,
                      useHTTPS = HTTPS endpoint, url = Endpoint_url ext endpoint,
                      http = BasicAuth \<lparr>transport = None, dial = Parameters.Dial params,
                                         proxyfunc = None\<rparr>\<rparr>;
          client1 = (case TransportDecorator params of
                       None \<Rightarrow> client0
                     | Some t \<Rightarrow> client0\<lparr>http := t\<rparr>)
      in case Transporter_Transport ext (http client1) endpoint of
           (Some e, t) \<Rightarrow>
             (None, Some (Error (''can't parse this key and certs: '' @ message e) (Some e)))
         | (None, t) \<Rightarrow> (Some (client1\<lparr>http := t\<rparr>), None))"

definition NewClient ::
    "externals \<Rightarrow> Endpoint \<Rightarrow> string \<Rightarrow> string \<Rightarrow> Client option \<times> error option" where
  "NewClient ext endpoint user pass =
     NewClientWithParameters ext endpoint user pass (DefaultParameters ext)"

text \<open>
  The same call seen from the caller's memory. The caller holds its Parameters in a cell
  and passes the cell's address; a Client that is returned is a new object, and a
  \<open>*Client\<close> is its index among the objects allocated so far. Reading an address that
  holds nothing is the nil dereference, a panic (\<open>None\<close>). \<open>store_Parameters\<close> is any
  later assignment of the caller's to a Parameters cell (to the whole struct or, with the
  other fields kept, to one field).
\<close>

record memory =
  parameters_at :: "nat \<Rightarrow> Parameters option"
  clients :: "Client list"

definition NewClientWithParameters_mem ::
    "externals \<Rightarrow> memory \<Rightarrow> Endpoint \<Rightarrow> string \<Rightarrow> string \<Rightarrow> nat
      \<Rightarrow> ((nat option \<times> error option) \<times> memory) option" where
  "NewClientWithParameters_mem ext m endpoint user pass p =
     (case parameters_at m p of
        None \<Rightarrow> None
      | Some params \<Rightarrow>
          (case NewClientWithParameters ext endpoint user pass params of
             (Some c, e) \<Rightarrow> Some ((Some (length (clients m)), e), m\<lparr>clients := clients m @ [c]\<rparr>)
           | (None, e) \<Rightarrow> Some ((None, e), m)))"

definition store_Parameters :: "memory \<Rightarrow> nat \<times> Parameters \<Rightarrow> memory" where
  "store_Parameters m w = (case w of (q, v) \<Rightarrow> m\<lparr>parameters_at := (parameters_at m)(q \<mapsto> v)\<rparr>)"

fun stores :: "memory \<Rightarrow> (nat \<times> Parameters) list \<Rightarrow> memory" where
  "stores m [] = m"
| "stores m (w # ws) = stores (store_Parameters m w) ws"

section \<open>Running a command\<close>

text \<open>
  What a call does beside returning: the calls of the main goroutine in order, the calls
  of each of the three goroutines it starts, and the bytes delivered to the two sinks.
  \<open>Called_Shell_Close\<close> carries the error \<open>shell.Close()\<close> returned, which the deferred
  call drops. A sink accepts every write, as a \<open>bytes.Buffer\<close> does.
\<close>

datatype event =
  HTTP_Do http_request
| Called_ExecuteWithContext string
| Called_Shell_Close "error option"
| wg_Add nat
| wg_Done
| wg_Wait
| cmd_Wait
| cmd_Close
| Copy_to_Stdin string
| Stdin_Close
| Copy_from_Stdout
| Copy_from_Stderr

record effects =
  main_trace :: "event list"
  stdin_task :: "event list"
  stdout_task :: "event list"
  stderr_task :: "event list"
  stdout_written :: string
  stderr_written :: string

definition no_effects :: effects where
  "no_effects = \<lparr>main_trace = [], stdin_task = [], stdout_task = [], stderr_task = [],
                  stdout_written = [], stderr_written = []\<rparr>"

definition NewShell :: "Client \<Rightarrow> string \<Rightarrow> Shell" where
  "NewShell c sid = \<lparr>shell_client = c, shell_id = sid\<rparr>"

text \<open>
  \<open>CreateShell\<close> returns either \<open>(nil, err)\<close> or \<open>(shell, nil)\<close>, here \<open>Inl err\<close> or
  \<open>Inr shell\<close>, and the requests its one call of \<open>sendRequest\<close> issued. The deferred
  \<open>request.Free()\<close> hands the message back to its pool and is left out.
\<close>

definition CreateShell :: "externals \<Rightarrow> Client \<Rightarrow> (error + Shell) \<times> event list" where
  "CreateShell ext c =
     (let request = NewOpenShellRequest ext (url c) (Parameters c);
          out = sendRequest ext c request;
          evs = map HTTP_Do (requests out)
      in case returned out of
           (response, Some e) \<Rightarrow> (Inl e, evs)
         | (response, None) \<Rightarrow>
             (case ParseOpenShellResponse ext response of
                Inl e \<Rightarrow> (Inl e, evs)
              | Inr sid \<Rightarrow> (Inr (NewShell c sid), evs)))"

text \<open>
  The first goroutine of \<open>RunWithContextWithInput\<close>: \<open>wg.Done\<close> is deferred first, so it
  runs last; with a nil reader the function returns before anything else is deferred.
\<close>

definition stdin_goroutine :: "string option \<Rightarrow> event list" where
  "stdin_goroutine stdin =
     (case stdin of
        None \<Rightarrow> [wg_Done]
      | Some input \<Rightarrow> [Copy_to_Stdin input, Stdin_Close, wg_Done])"

text \<open>
  \<open>stdin\<close> is the reader: \<open>None\<close> for nil, otherwise the bytes it yields. The context is
  handed to \<open>ExecuteWithContext\<close> and not used otherwise. \<open>defer shell.Close()\<close> is
  registered once \<open>CreateShell\<close> has succeeded, and runs after the results are set.
\<close>

definition RunWithContextWithInput ::
    "externals \<Rightarrow> Client \<Rightarrow> string \<Rightarrow> string option \<Rightarrow> (int \<times> error option) \<times> effects" where
  "RunWithContextWithInput ext c command stdin =
     (case CreateShell ext c of
        (Inl e, evs) \<Rightarrow> ((1, Some e), no_effects\<lparr>main_trace := evs\<rparr>)
      | (Inr shell, evs) \<Rightarrow>
          (case ExecuteWithContext ext shell command of
             Inl e \<Rightarrow>
               ((1, Some e),
                no_effects\<lparr>main_trace := evs @ [Called_ExecuteWithContext command,
                  Called_Shell_Close (Shell_Close ext shell)]\<rparr>)
           | Inr cmd \<Rightarrow>
               ((ExitCode cmd stdin, cmd_err cmd stdin),
                \<lparr>main_trace = evs @ [Called_ExecuteWithContext command, wg_Add 3,
                   cmd_Wait, wg_Wait, cmd_Close, Called_Shell_Close (Shell_Close ext shell)],
                 stdin_task = stdin_goroutine stdin,
                 stdout_task = [Copy_from_Stdout, wg_Done],
                 stderr_task = [Copy_from_Stderr, wg_Done],
                 stdout_written = Stdout cmd stdin,
                 stderr_written = Stderr cmd stdin\<rparr>)))"

definition RunWithContext ::
    "externals \<Rightarrow> Client \<Rightarrow> string \<Rightarrow> (int \<times> error option) \<times> effects" where
  "RunWithContext ext c command = RunWithContextWithInput ext c command None"

text \<open>
  The string variants return what their two buffers hold, the exit code and the error.
  \<open>strings.NewReader(stdin)\<close> is a non-nil reader, also for the empty string.
\<close>

definition RunWithContextWithString ::
    "externals \<Rightarrow> Client \<Rightarrow> string \<Rightarrow> string
      \<Rightarrow> (string \<times> string \<times> int \<times> error option) \<times> effects" where
  "RunWithContextWithString ext c command stdin =
     (case RunWithContextWithInput ext c command (Some stdin) of
        ((exitCode, e), eff) \<Rightarrow> ((stdout_written eff, stderr_written eff, exitCode, e), eff))"

definition RunCmdWithContext ::
    "externals \<Rightarrow> Client \<Rightarrow> string \<Rightarrow> (string \<times> string \<times> int \<times> error option) \<times> effects" where
  "RunCmdWithContext ext c command =
     (case RunWithContextWithInput ext c command None of
        ((exitCode, e), eff) \<Rightarrow> ((stdout_written eff, stderr_written eff, exitCode, e), eff))"

definition RunPSWithContextWithString ::
    "externals \<Rightarrow> Client \<Rightarrow> string \<Rightarrow> string
      \<Rightarrow> (string \<times> string \<times> int \<times> error option) \<times> effects" where
  "RunPSWithContextWithString ext c command stdin =
     (let command' = Powershell ext command
      in if command' = []
         then (([], [], 1, Some (errors_New ''cannot encode the given command'')), no_effects)
         else RunWithContextWithString ext c command' stdin)"

definition RunPSWithContext ::
    "externals \<Rightarrow> Client \<Rightarrow> string \<Rightarrow> (string \<times> string \<times> int \<times> error option) \<times> effects" where
  "RunPSWithContext ext c command =
     (let command' = Powershell ext command
      in if command' = []
         then (([], [], 1, Some (errors_New ''cannot encode the given command'')), no_effects)
         else (case RunWithContextWithInput ext c command' None of
                 ((exitCode, e), eff) \<Rightarrow>
                   ((stdout_written eff, stderr_written eff, exitCode, e), eff)))"

text \<open>The events that are calls of \<open>shell.Close()\<close>.\<close>

fun is_Shell_Close :: "event \<Rightarrow> bool" where
  "is_Shell_Close (Called_Shell_Close r) = True"
| "is_Shell_Close ev = False"

section \<open>Sample values\<close>

text \<open>
  Concrete responses, collaborators, clients, an endpoint and a caller's memory, on which
  the theorems below are evaluated. \<open>sample_ext resp\<close> is a world whose server answers
  every request with \<open>resp\<close>, whose \<open>http.NewRequest\<close> rejects a URL with a space in it,
  whose TLS library accepts one key pair and one CA bundle, whose encoder fails on the
  empty command and whose shells refuse the empty command and fail to close.
\<close>

definition stream_of :: "bytes \<Rightarrow> body_stream" where
  "stream_of bs = \<lparr>content = bs, read_error = None, close_error = None, reads = 0, closes = 0\<rparr>"

definition resp_html_200 :: http_response where
  "resp_html_200 = \<lparr>StatusCode = 200, Header = [''Content-Type'' \<mapsto> [''text/html'']],
     Body = stream_of ''<html/>''\<rparr>"

definition resp_soap_500 :: http_response where
  "resp_soap_500 = \<lparr>StatusCode = 500,
     Header = [''Content-Type'' \<mapsto> [''application/soap+xml;charset=UTF-8'']],
     Body = stream_of ''fault''\<rparr>"

definition resp_soap_200 :: http_response where
  "resp_soap_200 = \<lparr>StatusCode = 200,
     Header = [''Content-Type'' \<mapsto> [''application/soap+xml;charset=UTF-8'']],
     Body = stream_of ''<shell-1/>''\<rparr>"

definition sample_params :: Parameters where
  "sample_params = \<lparr>Timeout = ''PT60S'', Locale = ''en-US'', EnvelopeSize = 153600,
     Dial = None, TransportDecorator = None\<rparr>"

definition sample_command :: Command where
  "sample_command = \<lparr>Stdout = (\<lambda>fed. ''hi''), Stderr = (\<lambda>fed. []),
     ExitCode = (\<lambda>fed. 0), cmd_err = (\<lambda>fed. None)\<rparr>"

definition sample_ext :: "http_response \<Rightarrow> externals" where
  "sample_ext resp =
     \<lparr>X509KeyPair = (\<lambda>certPEM keyPEM.
         if certPEM = ''CERT'' \<and> keyPEM = ''KEY'' then Inr (Certificate certPEM keyPEM)
         else Inl (errors_New ''tls: failed to find any PEM data in certificate input'')),
       PEM_ok = (\<lambda>pem. pem = ''CA''),
       NewRequest_error = (\<lambda>method u.
         if CHR '' '' \<in> set u then Some (errors_New ''parse: invalid character in host name'')
         else None),
       Client_Do = (\<lambda>t req. Inr resp),
       Endpoint_url = (\<lambda>endpoint. ''https://'' @ Host endpoint @ ''/wsman''),
       DefaultParameters = sample_params,
       NewOpenShellRequest = (\<lambda>u params. ''<open-shell/>''),
       ParseOpenShellResponse = (\<lambda>response. Inr ''shell-1''),
       Powershell = (\<lambda>command. if command = [] then [] else ''powershell.exe '' @ command),
       ExecuteWithContext = (\<lambda>shell command.
         if command = [] then Inl (errors_New ''empty command'') else Inr sample_command),
       Shell_Close = (\<lambda>shell. Some (errors_New ''close failed''))\<rparr>"

definition sample_client :: "string \<Rightarrow> Transporter \<Rightarrow> Client" where
  "sample_client u t = \<lparr>Parameters = sample_params, username = ''user'', password = ''pass'',
     useHTTPS = True, url = u, http = t\<rparr>"

definition basic_transporter :: clientRequest where
  "basic_transporter = \<lparr>transport = None, dial = None, proxyfunc = None\<rparr>"

definition mutual_transporter :: ClientAuthRequest where
  "mutual_transporter = \<lparr>ClientAuthRequest.transport = None, ClientAuthRequest.dial = None\<rparr>"

definition sample_endpoint :: Endpoint where
  "sample_endpoint = \<lparr>Host = ''host'', Port = 5986, HTTPS = True, Insecure = False,
     TLSServerName = [], CACert = [], Key = ''KEY'', Cert = ''CERT'', Timeout = 0\<rparr>"

definition sample_memory :: memory where
  "sample_memory = \<lparr>parameters_at = [0 \<mapsto> sample_params], clients = []\<rparr>"

section \<open>Reading a response: what the two functions return\<close>

lemma parse_not_soap:
  "\<not> strings_Contains (Header_Get (Header resp) ''Content-Type'') ''application/soap+xml''
   \<Longrightarrow> parse resp = (([], Some (Error ''invalid content type'' None)), Body resp)"
  by (simp add: parse_def)

lemma body_not_soap:
  "\<not> strings_Contains (Header_Get (Header resp) ''Content-Type'') ''application/soap+xml''
   \<Longrightarrow> body resp = (([], Some (Error ''invalid content type'' None)), Body resp)"
  by (simp add: body_def)

lemma parse_soap:
  "strings_Contains (Header_Get (Header resp) ''Content-Type'') ''application/soap+xml''
   \<Longrightarrow> parse resp =
     ((case read_error (Body resp) of
         Some e \<Rightarrow> ([], Some (Error (''error while reading request body '' @ message e) (Some e)))
       | None \<Rightarrow> (content (Body resp), None)),
      (Body resp)\<lparr>reads := reads (Body resp) + 1, closes := closes (Body resp) + 1\<rparr>)"
  by (simp add: parse_def io_ReadAll_def Body_Close_def Let_def)

lemma body_soap:
  "strings_Contains (Header_Get (Header resp) ''Content-Type'') ''application/soap+xml''
   \<Longrightarrow> body resp =
     ((case read_error (Body resp) of
         Some e \<Rightarrow> ([], Some (Error (''error while reading request body '' @ message e) (Some e)))
       | None \<Rightarrow> (content (Body resp), None)),
      (Body resp)\<lparr>reads := reads (Body resp) + 1, closes := closes (Body resp) + 1\<rparr>)"
  by (simp add: body_def io_ReadAll_def Body_Close_def Let_def)

lemma ClientAuthRequest_Post_requests:
  "requests (ClientAuthRequest_Post ext c cl request) =
     (case NewRequest_error ext ''POST'' (url cl) of
        Some e \<Rightarrow> []
      | None \<Rightarrow> [\<lparr>Method = ''POST'', URL = url cl,
           ReqHeader = [''Content-Type'' \<mapsto> [''application/soap+xml;charset=UTF-8''],
             ''Authorization'' \<mapsto>
               [''http://schemas.dmtf.org/wbem/wsman/1/wsman/secprofile/https/mutual'']],
           ReqBody = request\<rparr>])"
  by (simp add: ClientAuthRequest_Post_def NewRequest_def Let_def Header_Set_def soapXML_def
      split: option.splits sum.splits prod.splits)

lemma clientRequest_Post_requests:
  "requests (clientRequest_Post ext c cl request) =
     (case NewRequest_error ext ''POST'' (url cl) of
        Some e \<Rightarrow> []
      | None \<Rightarrow> [\<lparr>Method = ''POST'', URL = url cl,
           ReqHeader = [''Content-Type'' \<mapsto> [''application/soap+xml;charset=UTF-8''],
             ''Authorization'' \<mapsto>
               [''Basic '' @ base64_StdEncoding (username cl @ '':'' @ password cl)]],
           ReqBody = request\<rparr>])"
  by (simp add: clientRequest_Post_def NewRequest_def Let_def Header_Set_def soapXML_def
      SetBasicAuth_def split: option.splits sum.splits prod.splits)

lemma ClientAuthRequest_Post_answered:
  assumes "requests (ClientAuthRequest_Post ext c cl request) = [req]"
    and "Client_Do ext (ClientAuthRequest.transport c) req = Inr resp"
  shows "returned (ClientAuthRequest_Post ext c cl request) =
     (case parse resp of
        ((data, Some e), stream) \<Rightarrow>
          ([], Some (Error (''http response error: '' @ fmt_d (StatusCode resp) @ '' - ''
                 @ message e) (Some e)))
      | ((data, None), stream) \<Rightarrow> (data, None))"
  using assms
  by (auto simp: ClientAuthRequest_Post_def NewRequest_def Let_def
      split: option.splits sum.splits prod.splits)

lemma clientRequest_Post_answered:
  assumes "requests (clientRequest_Post ext c cl request) = [req]"
    and "Client_Do ext (clientRequest.transport c) req = Inr resp"
  shows "returned (clientRequest_Post ext c cl request) =
     (case body resp of
        ((data, Some e), stream) \<Rightarrow>
          ([], Some (Error (''http response error: '' @ fmt_d (StatusCode resp) @ '' - ''
                 @ message e) (Some e)))
      | ((data, None), stream) \<Rightarrow> (data, None))"
  using assms
  by (auto simp: clientRequest_Post_def NewRequest_def Let_def
      split: option.splits sum.splits prod.splits)

section \<open>Configuring a transport: what the functions return\<close>

lemma readCACerts_eq:
  "readCACerts ext certs =
     (if PEM_ok ext certs then Inr (CertPool [certs])
      else Inl (errors_New ''unable to read certificates''))"
  by (simp add: readCACerts_def AppendCertsFromPEM_def)

lemma clientRequest_Transport_eq:
  "clientRequest_Transport ext c endpoint =
     (if CACert endpoint \<noteq> [] \<and> \<not> PEM_ok ext (CACert endpoint)
      then (Some (errors_New ''unable to read certificates''), c)
      else (None, c\<lparr>clientRequest.transport := Some
        \<lparr>Proxy = (case clientRequest.proxyfunc c of
                     None \<Rightarrow> ProxyFromEnvironment | Some f \<Rightarrow> Custom_Proxy f),
         TLSClientConfig = \<lparr>Renegotiation = RenegotiateNever,
           InsecureSkipVerify = Insecure endpoint, Certificates = [], MaxVersion = 0,
           ServerName = TLSServerName endpoint,
           RootCAs = (if CACert endpoint = [] then None
                      else Some (CertPool [CACert endpoint]))\<rparr>,
         Dial = (case clientRequest.dial c of
                   None \<Rightarrow> Dialer_Dial (30 * Second) (30 * Second) | Some d \<Rightarrow> Custom_Dial d),
         ResponseHeaderTimeout = Endpoint.Timeout endpoint\<rparr>\<rparr>))"
  by (simp add: clientRequest_Transport_def readCACerts_eq Let_def)

lemma ClientAuthRequest_Transport_eq:
  "ClientAuthRequest_Transport ext c endpoint =
     (case X509KeyPair ext (Cert endpoint) (Key endpoint) of
        Inl e \<Rightarrow> (Some e, c)
      | Inr cert \<Rightarrow>
          if CACert endpoint \<noteq> [] \<and> \<not> PEM_ok ext (CACert endpoint)
          then (Some (errors_New ''unable to read certificates''), c)
          else (None, c\<lparr>ClientAuthRequest.transport := Some
            \<lparr>Proxy = ProxyFromEnvironment,
             TLSClientConfig = \<lparr>Renegotiation = RenegotiateOnceAsClient,
               InsecureSkipVerify = Insecure endpoint, Certificates = [cert],
               MaxVersion = VersionTLS12, ServerName = [],
               RootCAs = (if CACert endpoint = [] then None
                          else Some (CertPool [CACert endpoint]))\<rparr>,
             Dial = (case ClientAuthRequest.dial c of
                       None \<Rightarrow> Dialer_Dial (30 * Second) (30 * Second)
                     | Some d \<Rightarrow> Custom_Dial d),
             ResponseHeaderTimeout = Endpoint.Timeout endpoint\<rparr>\<rparr>))"
  by (simp add: ClientAuthRequest_Transport_def readCACerts_eq Let_def split: sum.splits)

lemma NewClientWithParameters_eq:
  "NewClientWithParameters ext endpoint user pass params =
     (case Transporter_Transport ext
             (case TransportDecorator params of
                None \<Rightarrow> BasicAuth \<lparr>transport = None, dial = Parameters.Dial params,
                                    proxyfunc = None\<rparr>
              | Some t \<Rightarrow> t) endpoint of
        (Some e, t) \<Rightarrow>
          (None, Some (Error (''can't parse this key and certs: '' @ message e) (Some e)))
      | (None, t) \<Rightarrow>
          (Some \<lparr>Parameters = params, username = user, password = pass,
                 useHTTPS = HTTPS endpoint, url = Endpoint_url ext endpoint, http = t\<rparr>, None))"
  by (simp add: NewClientWithParameters_def Let_def split: option.splits prod.splits)

lemma fst_Transporter_Transport:
  "fst (Transporter_Transport ext t endpoint) =
     (case t of
        BasicAuth c \<Rightarrow> fst (clientRequest_Transport ext c endpoint)
      | MutualTLS c \<Rightarrow> fst (ClientAuthRequest_Transport ext c endpoint))"
  by (simp add: Transporter_Transport_def split: Transporter.splits prod.splits)

lemma clients_stores: "clients (stores m ws) = clients m"
  by (induction ws arbitrary: m) (simp_all add: store_Parameters_def split: prod.splits)

section \<open>Running a command: the calls made\<close>

lemma CreateShell_events:
  "snd (CreateShell ext c) =
     map HTTP_Do (requests (sendRequest ext c (NewOpenShellRequest ext (url c) (Parameters c))))"
  by (simp add: CreateShell_def Let_def split: prod.splits option.splits sum.splits)

lemma CreateShell_no_close: "filter is_Shell_Close (snd (CreateShell ext c)) = []"
  by (simp add: CreateShell_events filter_map comp_def)

lemma NewRequest_Shell_Close:
  "NewRequest (ext\<lparr>Shell_Close := f\<rparr>) method u b = NewRequest ext method u b"
  by (simp add: NewRequest_def)

lemma sendRequest_Shell_Close:
  "sendRequest (ext\<lparr>Shell_Close := f\<rparr>) c request = sendRequest ext c request"
  by (simp add: sendRequest_def clientRequest_Post_def ClientAuthRequest_Post_def
      NewRequest_Shell_Close Let_def
      cong: sum.case_cong Transporter.case_cong)

lemma CreateShell_Shell_Close:
  "CreateShell (ext\<lparr>Shell_Close := f\<rparr>) c = CreateShell ext c"
  by (simp add: CreateShell_def sendRequest_Shell_Close)

lemma RunWithContextWithInput_after_CreateShell:
  assumes "CreateShell ext c = (Inr shell, evs)"
  shows "RunWithContextWithInput ext c command stdin =
     (case ExecuteWithContext ext shell command of
        Inl e \<Rightarrow>
          ((1, Some e),
           no_effects\<lparr>main_trace := evs @ [Called_ExecuteWithContext command,
             Called_Shell_Close (Shell_Close ext shell)]\<rparr>)
      | Inr cmd \<Rightarrow>
          ((ExitCode cmd stdin, cmd_err cmd stdin),
           \<lparr>main_trace = evs @ [Called_ExecuteWithContext command, wg_Add 3,
              cmd_Wait, wg_Wait, cmd_Close, Called_Shell_Close (Shell_Close ext shell)],
            stdin_task = stdin_goroutine stdin,
            stdout_task = [Copy_from_Stdout, wg_Done],
            stderr_task = [Copy_from_Stderr, wg_Done],
            stdout_written = Stdout cmd stdin,
            stderr_written = Stderr cmd stdin\<rparr>))"
  using assms by (simp add: RunWithContextWithInput_def)

lemma sample_CreateShell:
  "CreateShell (sample_ext resp_soap_200) (sample_client ''https://host/wsman'' (BasicAuth basic_transporter))
     = (Inr \<lparr>shell_client = sample_client ''https://host/wsman'' (BasicAuth basic_transporter),
              shell_id = ''shell-1''\<rparr>,
        [HTTP_Do \<lparr>Method = ''POST'', URL = ''https://host/wsman'',
           ReqHeader = [''Content-Type'' \<mapsto> [''application/soap+xml;charset=UTF-8''],
             ''Authorization'' \<mapsto> [''Basic dXNlcjpwYXNz'']],
           ReqBody = ''<open-shell/>''\<rparr>])"
  by (simp add: CreateShell_def sendRequest_def clientRequest_Post_def NewRequest_def
      SetBasicAuth_def Header_Set_def Header_Get_def soapXML_def body_def io_ReadAll_def
      Body_Close_def NewShell_def Let_def sample_ext_def sample_client_def resp_soap_200_def
      stream_of_def base64_StdEncoding_def b64_char_def)

section \<open>Claims about the response path\<close>

text \<open>
  Claim C1, as the code has it. For every response whose \<open>Content-Type\<close> does not contain
  \<open>application/soap+xml\<close>, \<open>parse\<close> and \<open>body\<close> return the empty string and the error
  \<open>invalid content type\<close>, whatever the status code is; and a \<open>Post\<close> of either transport
  that received such a response returns the empty string and the error
  \<open>http response error: <status> - invalid content type\<close>, which wraps the former. A
  response with status 200 and a wrong content type is therefore an error.
\<close>

theorem wrong_content_type_is_error:
  assumes "\<not> strings_Contains (Header_Get (Header resp) ''Content-Type'') ''application/soap+xml''"
  shows "fst (parse resp) = ([], Some (Error ''invalid content type'' None)) \<and>
         fst (body resp) = ([], Some (Error ''invalid content type'' None)) \<and>
         (\<forall>ext c cl request req.
            requests (ClientAuthRequest_Post ext c cl request) = [req] \<and>
            Client_Do ext (ClientAuthRequest.transport c) req = Inr resp \<longrightarrow>
            returned (ClientAuthRequest_Post ext c cl request) =
              ([], Some (Error (''http response error: '' @ fmt_d (StatusCode resp)
                     @ '' - invalid content type'') (Some (Error ''invalid content type'' None))))) \<and>
         (\<forall>ext c cl request req.
            requests (clientRequest_Post ext c cl request) = [req] \<and>
            Client_Do ext (clientRequest.transport c) req = Inr resp \<longrightarrow>
            returned (clientRequest_Post ext c cl request) =
              ([], Some (Error (''http response error: '' @ fmt_d (StatusCode resp)
                     @ '' - invalid content type'') (Some (Error ''invalid content type'' None)))))"
proof -
  note p = parse_not_soap [OF assms] and b = body_not_soap [OF assms]
  have "returned (ClientAuthRequest_Post ext c cl request) =
          ([], Some (Error (''http response error: '' @ fmt_d (StatusCode resp)
                 @ '' - invalid content type'') (Some (Error ''invalid content type'' None))))"
    if "requests (ClientAuthRequest_Post ext c cl request) = [req]"
      and "Client_Do ext (ClientAuthRequest.transport c) req = Inr resp"
    for ext c cl request req
    using ClientAuthRequest_Post_answered [OF that] by (simp add: p)
  moreover have "returned (clientRequest_Post ext c cl request) =
          ([], Some (Error (''http response error: '' @ fmt_d (StatusCode resp)
                 @ '' - invalid content type'') (Some (Error ''invalid content type'' None))))"
    if "requests (clientRequest_Post ext c cl request) = [req]"
      and "Client_Do ext (clientRequest.transport c) req = Inr resp"
    for ext c cl request req
    using clientRequest_Post_answered [OF that] by (simp add: b)
  ultimately show ?thesis by (simp add: p b)
qed

text \<open>The theorem of C1 on a response with status 200 and content type \<open>text/html\<close>.\<close>

theorem wrong_content_type_is_error_witness:
  "StatusCode resp_html_200 = 200 \<and>
   fst (parse resp_html_200) = ([], Some (Error ''invalid content type'' None)) \<and>
   fst (body resp_html_200) = ([], Some (Error ''invalid content type'' None)) \<and>
   returned (ClientAuthRequest_Post (sample_ext resp_html_200) mutual_transporter
      (sample_client ''https://host/wsman'' (MutualTLS mutual_transporter)) ''<envelope/>'')
     = ([], Some (Error ''http response error: 200 - invalid content type''
              (Some (Error ''invalid content type'' None)))) \<and>
   returned (clientRequest_Post (sample_ext resp_html_200) basic_transporter
      (sample_client ''https://host/wsman'' (BasicAuth basic_transporter)) ''<envelope/>'')
     = ([], Some (Error ''http response error: 200 - invalid content type''
              (Some (Error ''invalid content type'' None))))"
proof -
  have ct: "\<not> strings_Contains (Header_Get (Header resp_html_200) ''Content-Type'')
              ''application/soap+xml''"
    by (simp add: resp_html_200_def Header_Get_def)
  have st: "StatusCode resp_html_200 = 200"
    by (simp add: resp_html_200_def)
  have d: "fmt_d 200 = ''200''"
    by (simp add: fmt_d_def digits10.simps)
  have m: "Client_Do (sample_ext resp_html_200) t req = Inr resp_html_200" for t req
    by (simp add: sample_ext_def)
  have u: "NewRequest_error (sample_ext resp_html_200) ''POST''
             (url (sample_client ''https://host/wsman'' t)) = None" for t
    by (simp add: sample_ext_def sample_client_def)
  have r1: "\<exists>req. requests (ClientAuthRequest_Post (sample_ext resp_html_200) mutual_transporter
      (sample_client ''https://host/wsman'' (MutualTLS mutual_transporter)) ''<envelope/>'') = [req]"
    by (simp add: ClientAuthRequest_Post_requests u)
  have r2: "\<exists>req. requests (clientRequest_Post (sample_ext resp_html_200) basic_transporter
      (sample_client ''https://host/wsman'' (BasicAuth basic_transporter)) ''<envelope/>'') = [req]"
    by (simp add: clientRequest_Post_requests u)
  from wrong_content_type_is_error [OF ct] r1 r2 m show ?thesis
    by (auto simp: st d)
qed

text \<open>
  Claim C1 as written names the error \<open>unexpected content type\<close>. On the response with
  status 200 and content type \<open>text/html\<close> the error of \<open>parse\<close> and \<open>body\<close> is
  \<open>invalid content type\<close> and the error of \<open>Post\<close> is
  \<open>http response error: 200 - invalid content type\<close>; neither message is, or contains,
  \<open>unexpected content type\<close>.
\<close>

theorem wrong_content_type_message_counterexample:
  "StatusCode resp_html_200 = 200 \<and>
   \<not> strings_Contains (Header_Get (Header resp_html_200) ''Content-Type'') ''application/soap+xml'' \<and>
   fst (parse resp_html_200) = ([], Some (Error ''invalid content type'' None)) \<and>
   fst (body resp_html_200) = ([], Some (Error ''invalid content type'' None)) \<and>
   \<not> strings_Contains ''invalid content type'' ''unexpected content type'' \<and>
   returned (ClientAuthRequest_Post (sample_ext resp_html_200) mutual_transporter
      (sample_client ''https://host/wsman'' (MutualTLS mutual_transporter)) ''<envelope/>'')
     = ([], Some (Error ''http response error: 200 - invalid content type''
              (Some (Error ''invalid content type'' None)))) \<and>
   returned (clientRequest_Post (sample_ext resp_html_200) basic_transporter
      (sample_client ''https://host/wsman'' (BasicAuth basic_transporter)) ''<envelope/>'')
     = ([], Some (Error ''http response error: 200 - invalid content type''
              (Some (Error ''invalid content type'' None)))) \<and>
   \<not> strings_Contains ''http response error: 200 - invalid content type''
       ''unexpected content type''"
  by (simp add: parse_def body_def resp_html_200_def Header_Get_def
      ClientAuthRequest_Post_def clientRequest_Post_def NewRequest_def sample_ext_def
      sample_client_def Let_def fmt_d_def digits10.simps)

text \<open>
  Claim C2 at a response with content type \<open>application/soap+xml;charset=UTF-8\<close>, status
  500 and body \<open>fault\<close>: \<open>Post\<close> of either transport returns the body \<open>fault\<close> and a nil
  error. The deferred function that builds \<open>http error 500: fault\<close> assigns to the locals
  after the unnamed results have been set, so the error never reaches the caller.
\<close>

theorem Post_status_500_returns_body_and_nil:
  "StatusCode resp_soap_500 = 500 \<and>
   strings_Contains (Header_Get (Header resp_soap_500) ''Content-Type'') ''application/soap+xml'' \<and>
   returned (clientRequest_Post (sample_ext resp_soap_500) basic_transporter
      (sample_client ''https://host/wsman'' (BasicAuth basic_transporter)) ''<envelope/>'')
     = (''fault'', None) \<and>
   returned (ClientAuthRequest_Post (sample_ext resp_soap_500) mutual_transporter
      (sample_client ''https://host/wsman'' (MutualTLS mutual_transporter)) ''<envelope/>'')
     = (''fault'', None)"
  by (simp add: parse_def body_def resp_soap_500_def Header_Get_def io_ReadAll_def
      Body_Close_def stream_of_def ClientAuthRequest_Post_def clientRequest_Post_def
      NewRequest_def sample_ext_def sample_client_def Let_def)

text \<open>
  More generally: whenever the content type is right and the body can be read, \<open>Post\<close>
  returns the body and a nil error, whatever the status code is.
\<close>

lemma Post_ignores_status_when_soap:
  assumes "strings_Contains (Header_Get (Header resp) ''Content-Type'') ''application/soap+xml''"
    and "read_error (Body resp) = None"
  shows "(requests (ClientAuthRequest_Post ext ca cl request) = [req] \<and>
          Client_Do ext (ClientAuthRequest.transport ca) req = Inr resp \<longrightarrow>
          returned (ClientAuthRequest_Post ext ca cl request) = (content (Body resp), None)) \<and>
         (requests (clientRequest_Post ext cr cl request) = [req'] \<and>
          Client_Do ext (clientRequest.transport cr) req' = Inr resp \<longrightarrow>
          returned (clientRequest_Post ext cr cl request) = (content (Body resp), None))"
  using assms
  by (auto simp: ClientAuthRequest_Post_answered clientRequest_Post_answered parse_soap body_soap)

text \<open>
  Claim C10. When the \<open>Content-Type\<close> of a response does not contain
  \<open>application/soap+xml\<close>, \<open>parse\<close> and \<open>body\<close> return their error and leave the body
  stream as it was: not read, not closed. When it does, the stream has been read once and
  closed once when they return, whether or not the read succeeded.
\<close>

theorem body_stream_read_and_closed_only_when_soap:
  "(if strings_Contains (Header_Get (Header resp) ''Content-Type'') ''application/soap+xml''
    then snd (parse resp) =
           (Body resp)\<lparr>reads := reads (Body resp) + 1, closes := closes (Body resp) + 1\<rparr> \<and>
         snd (body resp) =
           (Body resp)\<lparr>reads := reads (Body resp) + 1, closes := closes (Body resp) + 1\<rparr>
    else snd (parse resp) = Body resp \<and> snd (body resp) = Body resp \<and>
         snd (fst (parse resp)) \<noteq> None \<and> snd (fst (body resp)) \<noteq> None)"
  by (simp add: parse_soap body_soap parse_not_soap body_not_soap)

text \<open>The theorem of C10 on a \<open>text/html\<close> response and on a SOAP response.\<close>

theorem body_stream_read_and_closed_only_when_soap_witness:
  "reads (snd (parse resp_html_200)) = 0 \<and> closes (snd (parse resp_html_200)) = 0 \<and>
   reads (snd (body resp_html_200)) = 0 \<and> closes (snd (body resp_html_200)) = 0 \<and>
   snd (fst (parse resp_html_200)) \<noteq> None \<and> snd (fst (body resp_html_200)) \<noteq> None \<and>
   reads (snd (parse resp_soap_500)) = 1 \<and> closes (snd (parse resp_soap_500)) = 1 \<and>
   reads (snd (body resp_soap_500)) = 1 \<and> closes (snd (body resp_soap_500)) = 1"
proof -
  have h: "\<not> strings_Contains (Header_Get (Header resp_html_200) ''Content-Type'')
              ''application/soap+xml''"
    by (simp add: resp_html_200_def Header_Get_def)
  have s: "strings_Contains (Header_Get (Header resp_soap_500) ''Content-Type'')
              ''application/soap+xml''"
    by (simp add: resp_soap_500_def Header_Get_def)
  have b: "Body resp_html_200 = stream_of ''<html/>''" "Body resp_soap_500 = stream_of ''fault''"
    by (simp_all add: resp_html_200_def resp_soap_500_def)
  from body_stream_read_and_closed_only_when_soap [of resp_html_200]
    body_stream_read_and_closed_only_when_soap [of resp_soap_500]
  show ?thesis
    by (simp add: h s b stream_of_def)
qed

section \<open>Claims about the request\<close>




section \<open>Claims about building a Client\<close>

text \<open>
  Claim C4, as the code has it. When the Client's transport is the mutual-TLS one and
  \<open>tls.X509KeyPair\<close> fails on the endpoint's certificate and key, \<open>Transport\<close> fails with
  that error and \<open>NewClientWithParameters\<close> returns a nil Client and the error
  \<open>can't parse this key and certs: ...\<close> wrapping it. When the endpoint's CA bytes are not
  empty and cannot be appended to the pool, \<open>Transport\<close> of either variant fails and
  no Client is returned. Whatever the transport is, a failing \<open>Transport\<close> gives a nil
  Client with the wrapped error, and a Client is returned only when \<open>Transport\<close>
  succeeded. With the default (basic-auth) transport the certificate and key are never
  parsed: construction fails exactly when a non-empty CA bundle cannot be read.
  \<open>NewClient\<close> is \<open>NewClientWithParameters\<close> on \<open>DefaultParameters\<close>.
\<close>

theorem NewClient_fails_when_Transport_fails:
  "(TransportDecorator params = Some (MutualTLS ca) \<and>
    X509KeyPair ext (Cert endpoint) (Key endpoint) = Inl e \<longrightarrow>
      fst (ClientAuthRequest_Transport ext ca endpoint) = Some e \<and>
      NewClientWithParameters ext endpoint user pass params =
        (None, Some (Error (''can't parse this key and certs: '' @ message e) (Some e)))) \<and>
   (CACert endpoint \<noteq> [] \<and> \<not> PEM_ok ext (CACert endpoint) \<longrightarrow>
      fst (ClientAuthRequest_Transport ext ca endpoint) \<noteq> None \<and>
      fst (clientRequest_Transport ext cr endpoint) = Some (errors_New ''unable to read certificates'') \<and>
      fst (NewClientWithParameters ext endpoint user pass params) = None \<and>
      (\<exists>e'. snd (NewClientWithParameters ext endpoint user pass params) =
         Some (Error (''can't parse this key and certs: '' @ message e') (Some e')))) \<and>
   (fst (Transporter_Transport ext
           (case TransportDecorator params of
              None \<Rightarrow> BasicAuth \<lparr>transport = None, dial = Parameters.Dial params,
                                  proxyfunc = None\<rparr>
            | Some t \<Rightarrow> t) endpoint) = Some e \<longrightarrow>
      NewClientWithParameters ext endpoint user pass params =
        (None, Some (Error (''can't parse this key and certs: '' @ message e) (Some e)))) \<and>
   (fst (NewClientWithParameters ext endpoint user pass params) \<noteq> None \<longrightarrow>
      fst (Transporter_Transport ext
           (case TransportDecorator params of
              None \<Rightarrow> BasicAuth \<lparr>transport = None, dial = Parameters.Dial params,
                                  proxyfunc = None\<rparr>
            | Some t \<Rightarrow> t) endpoint) = None \<and>
      snd (NewClientWithParameters ext endpoint user pass params) = None) \<and>
   (TransportDecorator params = None \<longrightarrow>
      (fst (NewClientWithParameters ext endpoint user pass params) = None) =
      (CACert endpoint \<noteq> [] \<and> \<not> PEM_ok ext (CACert endpoint))) \<and>
   NewClient ext endpoint user pass =
     NewClientWithParameters ext endpoint user pass (DefaultParameters ext)"
proof -
  have a: "fst (ClientAuthRequest_Transport ext ca endpoint) = Some e \<and>
      NewClientWithParameters ext endpoint user pass params =
        (None, Some (Error (''can't parse this key and certs: '' @ message e) (Some e)))"
    if "TransportDecorator params = Some (MutualTLS ca)"
      and "X509KeyPair ext (Cert endpoint) (Key endpoint) = Inl e"
    using that
    by (simp add: NewClientWithParameters_eq Transporter_Transport_def
        ClientAuthRequest_Transport_eq)
  have b1: "fst (ClientAuthRequest_Transport ext ca endpoint) \<noteq> None"
    if "CACert endpoint \<noteq> [] \<and> \<not> PEM_ok ext (CACert endpoint)" for ca
    using that by (simp add: ClientAuthRequest_Transport_eq split: sum.splits)
  have b2: "fst (clientRequest_Transport ext cr endpoint) =
              Some (errors_New ''unable to read certificates'')"
    if "CACert endpoint \<noteq> [] \<and> \<not> PEM_ok ext (CACert endpoint)" for cr
    using that by (simp add: clientRequest_Transport_eq)
  have b3: "fst (Transporter_Transport ext t endpoint) \<noteq> None"
    if "CACert endpoint \<noteq> [] \<and> \<not> PEM_ok ext (CACert endpoint)" for t
    using b1 [OF that] b2 [OF that]
    by (simp add: fst_Transporter_Transport split: Transporter.splits)
  have c: "NewClientWithParameters ext endpoint user pass params =
        (None, Some (Error (''can't parse this key and certs: '' @ message e) (Some e)))"
    if "fst (Transporter_Transport ext
           (case TransportDecorator params of
              None \<Rightarrow> BasicAuth \<lparr>transport = None, dial = Parameters.Dial params,
                                  proxyfunc = None\<rparr>
            | Some t \<Rightarrow> t) endpoint) = Some e" for e
    using that by (auto simp: NewClientWithParameters_eq split: prod.splits option.splits)
  have b4: "fst (NewClientWithParameters ext endpoint user pass params) = None \<and>
      (\<exists>e'. snd (NewClientWithParameters ext endpoint user pass params) =
         Some (Error (''can't parse this key and certs: '' @ message e') (Some e')))"
    if bad: "CACert endpoint \<noteq> [] \<and> \<not> PEM_ok ext (CACert endpoint)"
  proof -
    from b3 [OF bad] obtain e' where
      "fst (Transporter_Transport ext
           (case TransportDecorator params of
              None \<Rightarrow> BasicAuth \<lparr>transport = None, dial = Parameters.Dial params,
                                  proxyfunc = None\<rparr>
            | Some t \<Rightarrow> t) endpoint) = Some e'"
      by blast
    from c [OF this] show ?thesis by simp
  qed
  have d: "fst (Transporter_Transport ext
           (case TransportDecorator params of
              None \<Rightarrow> BasicAuth \<lparr>transport = None, dial = Parameters.Dial params,
                                  proxyfunc = None\<rparr>
            | Some t \<Rightarrow> t) endpoint) = None \<and>
      snd (NewClientWithParameters ext endpoint user pass params) = None"
    if "fst (NewClientWithParameters ext endpoint user pass params) \<noteq> None"
    using that by (auto simp: NewClientWithParameters_eq split: prod.splits option.splits)
  have f: "(fst (NewClientWithParameters ext endpoint user pass params) = None) =
      (CACert endpoint \<noteq> [] \<and> \<not> PEM_ok ext (CACert endpoint))"
    if "TransportDecorator params = None"
    using that
    by (simp add: NewClientWithParameters_eq Transporter_Transport_def
        clientRequest_Transport_eq)
  show ?thesis
    using a b1 b2 b4 c d f by (simp add: NewClient_def)
qed

text \<open>
  The theorem of C4 on a malformed certificate with the mutual-TLS transport, on a
  malformed CA bundle with the default transport, and on a well-formed endpoint.
\<close>

theorem NewClient_fails_when_Transport_fails_witness:
  "NewClientWithParameters (sample_ext resp_soap_500) (sample_endpoint\<lparr>Cert := ''garbage''\<rparr>)
      ''user'' ''pass'' (sample_params\<lparr>TransportDecorator := Some (MutualTLS mutual_transporter)\<rparr>)
     = (None, Some (Error
          ''can't parse this key and certs: tls: failed to find any PEM data in certificate input''
          (Some (Error ''tls: failed to find any PEM data in certificate input'' None)))) \<and>
   fst (NewClientWithParameters (sample_ext resp_soap_500)
          (sample_endpoint\<lparr>CACert := ''garbage''\<rparr>) ''user'' ''pass'' sample_params) = None \<and>
   fst (NewClient (sample_ext resp_soap_500) sample_endpoint ''user'' ''pass'') \<noteq> None"
proof -
  have x: "X509KeyPair (sample_ext resp_soap_500) (Cert (sample_endpoint\<lparr>Cert := ''garbage''\<rparr>))
             (Key (sample_endpoint\<lparr>Cert := ''garbage''\<rparr>))
           = Inl (Error ''tls: failed to find any PEM data in certificate input'' None)"
    by (simp add: sample_ext_def sample_endpoint_def errors_New_def)
  have d: "TransportDecorator (sample_params\<lparr>TransportDecorator := Some (MutualTLS mutual_transporter)\<rparr>)
           = Some (MutualTLS mutual_transporter)"
    by simp
  have ca: "CACert (sample_endpoint\<lparr>CACert := ''garbage''\<rparr>) \<noteq> [] \<and>
            \<not> PEM_ok (sample_ext resp_soap_500) (CACert (sample_endpoint\<lparr>CACert := ''garbage''\<rparr>))"
    by (simp add: sample_ext_def)
  have ok: "TransportDecorator (DefaultParameters (sample_ext resp_soap_500)) = None"
      "CACert sample_endpoint = []"
    by (simp_all add: sample_ext_def sample_params_def sample_endpoint_def)
  from NewClient_fails_when_Transport_fails
    [where ext = "sample_ext resp_soap_500" and endpoint = "sample_endpoint\<lparr>Cert := ''garbage''\<rparr>"
       and params = "sample_params\<lparr>TransportDecorator := Some (MutualTLS mutual_transporter)\<rparr>"
       and ca = mutual_transporter and user = "''user''" and pass = "''pass''"
       and e = "Error ''tls: failed to find any PEM data in certificate input'' None"]
  have 1: "NewClientWithParameters (sample_ext resp_soap_500) (sample_endpoint\<lparr>Cert := ''garbage''\<rparr>)
      ''user'' ''pass'' (sample_params\<lparr>TransportDecorator := Some (MutualTLS mutual_transporter)\<rparr>)
     = (None, Some (Error
          ''can't parse this key and certs: tls: failed to find any PEM data in certificate input''
          (Some (Error ''tls: failed to find any PEM data in certificate input'' None))))"
    using x d by simp
  from NewClient_fails_when_Transport_fails
    [where ext = "sample_ext resp_soap_500" and endpoint = "sample_endpoint\<lparr>CACert := ''garbage''\<rparr>"
       and params = sample_params and user = "''user''" and pass = "''pass''"]
  have 2: "fst (NewClientWithParameters (sample_ext resp_soap_500)
          (sample_endpoint\<lparr>CACert := ''garbage''\<rparr>) ''user'' ''pass'' sample_params) = None"
    using ca by blast
  from NewClient_fails_when_Transport_fails
    [where ext = "sample_ext resp_soap_500" and endpoint = sample_endpoint
       and params = "DefaultParameters (sample_ext resp_soap_500)"
       and user = "''user''" and pass = "''pass''"]
  have 3: "fst (NewClient (sample_ext resp_soap_500) sample_endpoint ''user'' ''pass'') \<noteq> None"
    using ok by (simp add: NewClient_def)
  from 1 2 3 show ?thesis by simp
qed

text \<open>
  Claim C4 as written has construction fail for every endpoint with a malformed
  certificate or key. With the default transport and a certificate and key that
  \<open>tls.X509KeyPair\<close> rejects, \<open>NewClientWithParameters\<close> and \<open>NewClient\<close> return a Client
  and a nil error.
\<close>

theorem malformed_certificate_accepted_by_default_transport_counterexample:
  "X509KeyPair (sample_ext resp_soap_500) ''garbage'' ''garbage''
     = Inl (Error ''tls: failed to find any PEM data in certificate input'' None) \<and>
   fst (NewClientWithParameters (sample_ext resp_soap_500)
          (sample_endpoint\<lparr>Key := ''garbage'', Cert := ''garbage''\<rparr>) ''user'' ''pass'' sample_params)
     \<noteq> None \<and>
   snd (NewClientWithParameters (sample_ext resp_soap_500)
          (sample_endpoint\<lparr>Key := ''garbage'', Cert := ''garbage''\<rparr>) ''user'' ''pass'' sample_params)
     = None \<and>
   fst (NewClient (sample_ext resp_soap_500)
          (sample_endpoint\<lparr>Key := ''garbage'', Cert := ''garbage''\<rparr>) ''user'' ''pass'')
     \<noteq> None"
  by (simp add: NewClient_def NewClientWithParameters_eq Transporter_Transport_def
      clientRequest_Transport_eq sample_ext_def sample_endpoint_def sample_params_def
      errors_New_def)

text \<open>
  Claim C5, as the code has it. \<open>Transport\<close> of the basic-auth variant never parses the
  endpoint's certificate and key and installs no client certificate: its result is the
  same for every certificate, key and \<open>tls.X509KeyPair\<close>. It installs a dialer (the
  caller's, or the default with 30 s timeouts), a proxy resolver (the caller's, or the
  environment's) and the endpoint's TLS options; and when the endpoint has a non-empty CA
  bundle it parses the bundle and installs it as the root pool, failing with
  \<open>unable to read certificates\<close> when the bundle cannot be parsed.
\<close>

theorem clientRequest_Transport_skips_key_pair:
  "clientRequest_Transport ext c endpoint =
     (if CACert endpoint \<noteq> [] \<and> \<not> PEM_ok ext (CACert endpoint)
      then (Some (errors_New ''unable to read certificates''), c)
      else (None, c\<lparr>clientRequest.transport := Some
        \<lparr>Proxy = (case clientRequest.proxyfunc c of
                     None \<Rightarrow> ProxyFromEnvironment | Some f \<Rightarrow> Custom_Proxy f),
         TLSClientConfig = \<lparr>Renegotiation = RenegotiateNever,
           InsecureSkipVerify = Insecure endpoint, Certificates = [], MaxVersion = 0,
           ServerName = TLSServerName endpoint,
           RootCAs = (if CACert endpoint = [] then None
                      else Some (CertPool [CACert endpoint]))\<rparr>,
         Dial = (case clientRequest.dial c of
                   None \<Rightarrow> Dialer_Dial (30 * Second) (30 * Second) | Some d \<Rightarrow> Custom_Dial d),
         ResponseHeaderTimeout = Endpoint.Timeout endpoint\<rparr>\<rparr>)) \<and>
   clientRequest_Transport (ext\<lparr>X509KeyPair := parsePair\<rparr>) c (endpoint\<lparr>Key := k, Cert := crt\<rparr>) =
     clientRequest_Transport ext c endpoint"
  by (simp add: clientRequest_Transport_eq)

text \<open>The theorem of C5 on an endpoint with a malformed key pair and a custom dialer.\<close>

theorem clientRequest_Transport_skips_key_pair_witness:
  "clientRequest_Transport (sample_ext resp_soap_500) (basic_transporter\<lparr>clientRequest.dial := Some 7\<rparr>)
      (sample_endpoint\<lparr>Key := ''garbage'', Cert := ''garbage''\<rparr>)
     = (None, basic_transporter\<lparr>clientRequest.dial := Some 7, clientRequest.transport := Some
          \<lparr>Proxy = ProxyFromEnvironment,
           TLSClientConfig = \<lparr>Renegotiation = RenegotiateNever, InsecureSkipVerify = False,
             Certificates = [], MaxVersion = 0, ServerName = [], RootCAs = None\<rparr>,
           Dial = Custom_Dial 7, ResponseHeaderTimeout = 0\<rparr>\<rparr>)"
  using clientRequest_Transport_skips_key_pair
    [where ext = "sample_ext resp_soap_500" and endpoint = sample_endpoint
       and c = "basic_transporter\<lparr>clientRequest.dial := Some 7\<rparr>"
       and k = "''garbage''" and crt = "''garbage''"
       and parsePair = "X509KeyPair (sample_ext resp_soap_500)"]
  by (simp add: sample_endpoint_def basic_transporter_def)

text \<open>
  Claim C5 as written has the basic-auth \<open>Transport\<close> parse and install no certificate
  material of the endpoint. With the CA bundle \<open>CA\<close> it installs the pool holding that
  bundle as \<open>RootCAs\<close>; with a CA bundle that cannot be parsed it fails.
\<close>

theorem clientRequest_Transport_installs_CA_counterexample:
  "clientRequest_Transport (sample_ext resp_soap_500) basic_transporter
      (sample_endpoint\<lparr>CACert := ''CA''\<rparr>)
     = (None, basic_transporter\<lparr>clientRequest.transport := Some
          \<lparr>Proxy = ProxyFromEnvironment,
           TLSClientConfig = \<lparr>Renegotiation = RenegotiateNever, InsecureSkipVerify = False,
             Certificates = [], MaxVersion = 0, ServerName = [],
             RootCAs = Some (CertPool [''CA''])\<rparr>,
           Dial = Dialer_Dial 30000000000 30000000000, ResponseHeaderTimeout = 0\<rparr>\<rparr>) \<and>
   clientRequest_Transport (sample_ext resp_soap_500) basic_transporter
      (sample_endpoint\<lparr>CACert := ''garbage''\<rparr>)
     = (Some (Error ''unable to read certificates'' None), basic_transporter)"
  by (simp add: clientRequest_Transport_eq sample_ext_def sample_endpoint_def
      basic_transporter_def errors_New_def Second_def)

text \<open>
  Claim C9. A Client built from the Parameters cell at \<open>p\<close> embeds the value the cell
  held at the call, and every later sequence of assignments to Parameters cells, the one
  at \<open>p\<close> included, leaves the Client and its embedded Parameters as they were.
\<close>

theorem Client_keeps_its_copy_of_Parameters:
  assumes "parameters_at m p = Some params"
    and "NewClientWithParameters_mem ext m endpoint user pass p = Some ((Some a, e), m')"
  shows "a < length (clients m') \<and> Parameters (clients m' ! a) = params \<and>
         clients (stores m' ws) ! a = clients m' ! a \<and>
         Parameters (clients (stores m' ws) ! a) = params"
proof -
  from assms obtain c where
    c: "NewClientWithParameters ext endpoint user pass params = (Some c, e)"
    and a: "a = length (clients m)" and m': "m' = m\<lparr>clients := clients m @ [c]\<rparr>"
    by (auto simp: NewClientWithParameters_mem_def split: prod.splits option.splits)
  from c have "Parameters c = params"
    by (auto simp: NewClientWithParameters_eq split: prod.splits option.splits)
  with a m' show ?thesis
    by (simp add: clients_stores)
qed

text \<open>
  The theorem of C9 on a caller that changes locale and dialer of its Parameters after
  the Client was built.
\<close>

theorem Client_keeps_its_copy_of_Parameters_witness:
  "fst (the (NewClientWithParameters_mem (sample_ext resp_soap_500) sample_memory sample_endpoint
            ''user'' ''pass'' 0)) = (Some 0, None) \<and>
   parameters_at (stores (snd (the (NewClientWithParameters_mem (sample_ext resp_soap_500)
       sample_memory sample_endpoint ''user'' ''pass'' 0)))
     [(0, sample_params\<lparr>Locale := ''fr-FR'', Dial := Some 7\<rparr>)]) 0
     = Some (sample_params\<lparr>Locale := ''fr-FR'', Dial := Some 7\<rparr>) \<and>
   Parameters (clients (stores (snd (the (NewClientWithParameters_mem (sample_ext resp_soap_500)
       sample_memory sample_endpoint ''user'' ''pass'' 0)))
     [(0, sample_params\<lparr>Locale := ''fr-FR'', Dial := Some 7\<rparr>)]) ! 0)
     = sample_params"
proof -
  define m' where "m' = snd (the (NewClientWithParameters_mem (sample_ext resp_soap_500)
     sample_memory sample_endpoint ''user'' ''pass'' 0))"
  have p: "parameters_at sample_memory 0 = Some sample_params"
    by (simp add: sample_memory_def)
  have r: "NewClientWithParameters_mem (sample_ext resp_soap_500) sample_memory sample_endpoint
            ''user'' ''pass'' 0 = Some ((Some 0, None), m')"
    unfolding m'_def
    by (simp add: NewClientWithParameters_mem_def NewClientWithParameters_eq
        Transporter_Transport_def clientRequest_Transport_eq sample_memory_def
        sample_endpoint_def sample_params_def)
  have s: "parameters_at (stores m' [(0, v)]) 0 = Some v" for v
    by (simp add: store_Parameters_def)
  have f: "fst (the (NewClientWithParameters_mem (sample_ext resp_soap_500) sample_memory
             sample_endpoint ''user'' ''pass'' 0)) = (Some 0, None)"
    using r by simp
  from Client_keeps_its_copy_of_Parameters [OF p r]
  have k: "Parameters (clients (stores m' ws) ! 0) = sample_params" for ws
    by simp
  show ?thesis
    using f k s unfolding m'_def by blast
qed

section \<open>Claims about running a command\<close>

text \<open>
  Claim C3. When \<open>CreateShell\<close> succeeds, \<open>shell.Close()\<close> is the last call of
  \<open>RunWithContextWithInput\<close> and is made exactly once, also when \<open>ExecuteWithContext\<close>
  fails; what is returned is the error of \<open>ExecuteWithContext\<close> with exit code 1, or the
  command's exit code and error, and it is the same whatever \<open>shell.Close()\<close> returns.
\<close>

theorem Shell_Close_runs_on_every_path:
  assumes "CreateShell ext c = (Inr shell, evs)"
  shows "last (main_trace (snd (RunWithContextWithInput ext c command stdin)))
           = Called_Shell_Close (Shell_Close ext shell) \<and>
         filter is_Shell_Close (main_trace (snd (RunWithContextWithInput ext c command stdin)))
           = [Called_Shell_Close (Shell_Close ext shell)] \<and>
         fst (RunWithContextWithInput ext c command stdin) =
           (case ExecuteWithContext ext shell command of
              Inl e \<Rightarrow> (1, Some e)
            | Inr cmd \<Rightarrow> (ExitCode cmd stdin, cmd_err cmd stdin)) \<and>
         fst (RunWithContextWithInput (ext\<lparr>Shell_Close := close'\<rparr>) c command stdin) =
           fst (RunWithContextWithInput ext c command stdin)"
proof -
  from assms have n: "filter is_Shell_Close evs = []"
    using CreateShell_no_close [of ext c] by simp
  from assms have c': "CreateShell (ext\<lparr>Shell_Close := close'\<rparr>) c = (Inr shell, evs)"
    by (simp add: CreateShell_Shell_Close)
  show ?thesis
    by (simp add: RunWithContextWithInput_after_CreateShell [OF assms]
        RunWithContextWithInput_after_CreateShell [OF c'] n no_effects_def
        split: sum.splits)
qed

text \<open>
  The theorem of C3 on a shell that refuses the empty command and fails to close, and on
  a command that runs.
\<close>

theorem Shell_Close_runs_on_every_path_witness:
  "RunWithContextWithInput (sample_ext resp_soap_200)
      (sample_client ''https://host/wsman'' (BasicAuth basic_transporter)) [] None
     = ((1, Some (Error ''empty command'' None)),
        no_effects\<lparr>main_trace :=
          [HTTP_Do \<lparr>Method = ''POST'', URL = ''https://host/wsman'',
             ReqHeader = [''Content-Type'' \<mapsto> [''application/soap+xml;charset=UTF-8''],
               ''Authorization'' \<mapsto> [''Basic dXNlcjpwYXNz'']],
             ReqBody = ''<open-shell/>''\<rparr>,
           Called_ExecuteWithContext [],
           Called_Shell_Close (Some (Error ''close failed'' None))]\<rparr>) \<and>
   last (main_trace (snd (RunWithContextWithInput (sample_ext resp_soap_200)
      (sample_client ''https://host/wsman'' (BasicAuth basic_transporter)) ''dir'' (Some ''x''))))
     = Called_Shell_Close (Some (Error ''close failed'' None)) \<and>
   fst (RunWithContextWithInput (sample_ext resp_soap_200)
      (sample_client ''https://host/wsman'' (BasicAuth basic_transporter)) ''dir'' (Some ''x''))
     = (0, None)"
proof -
  have x: "ExecuteWithContext (sample_ext resp_soap_200) sh [] = Inl (Error ''empty command'' None)"
      "ExecuteWithContext (sample_ext resp_soap_200) sh ''dir'' = Inr sample_command"
      "Shell_Close (sample_ext resp_soap_200) sh = Some (Error ''close failed'' None)" for sh
    by (simp_all add: sample_ext_def errors_New_def)
  have 1: "RunWithContextWithInput (sample_ext resp_soap_200)
      (sample_client ''https://host/wsman'' (BasicAuth basic_transporter)) [] None
     = ((1, Some (Error ''empty command'' None)),
        no_effects\<lparr>main_trace :=
          [HTTP_Do \<lparr>Method = ''POST'', URL = ''https://host/wsman'',
             ReqHeader = [''Content-Type'' \<mapsto> [''application/soap+xml;charset=UTF-8''],
               ''Authorization'' \<mapsto> [''Basic dXNlcjpwYXNz'']],
             ReqBody = ''<open-shell/>''\<rparr>,
           Called_ExecuteWithContext [],
           Called_Shell_Close (Some (Error ''close failed'' None))]\<rparr>)"
    using Shell_Close_runs_on_every_path [OF sample_CreateShell, of "[]" None]
    by (simp add: RunWithContextWithInput_def sample_CreateShell x)
  from Shell_Close_runs_on_every_path [OF sample_CreateShell, of "''dir''" "Some ''x''"]
  have 2: "last (main_trace (snd (RunWithContextWithInput (sample_ext resp_soap_200)
      (sample_client ''https://host/wsman'' (BasicAuth basic_transporter)) ''dir'' (Some ''x''))))
     = Called_Shell_Close (Some (Error ''close failed'' None)) \<and>
   fst (RunWithContextWithInput (sample_ext resp_soap_200)
      (sample_client ''https://host/wsman'' (BasicAuth basic_transporter)) ''dir'' (Some ''x''))
     = (0, None)"
    by (simp add: x sample_command_def)
  from 1 2 show ?thesis by simp
qed

text \<open>
  Claim C6. When the encoding of the command is the empty string,
  \<open>RunPSWithContextWithString\<close> and \<open>RunPSWithContext\<close> return two empty strings, the exit
  code 1 and the error \<open>cannot encode the given command\<close>, and make no call at all: no
  request is sent, no shell is opened.
\<close>

theorem RunPS_with_empty_encoding_calls_nothing:
  assumes "Powershell ext command = []"
  shows "RunPSWithContextWithString ext c command stdin =
           (([], [], 1, Some (errors_New ''cannot encode the given command'')), no_effects) \<and>
         RunPSWithContext ext c command =
           (([], [], 1, Some (errors_New ''cannot encode the given command'')), no_effects) \<and>
         main_trace (snd (RunPSWithContextWithString ext c command stdin)) = [] \<and>
         main_trace (snd (RunPSWithContext ext c command)) = []"
  using assms
  by (simp add: RunPSWithContextWithString_def RunPSWithContext_def no_effects_def)

text \<open>The theorem of C6 on an encoder that fails on the empty command.\<close>

theorem RunPS_with_empty_encoding_calls_nothing_witness:
  "RunPSWithContextWithString (sample_ext resp_soap_200)
      (sample_client ''https://host/wsman'' (BasicAuth basic_transporter)) [] ''input''
     = (([], [], 1, Some (Error ''cannot encode the given command'' None)),
        \<lparr>main_trace = [], stdin_task = [], stdout_task = [], stderr_task = [],
         stdout_written = [], stderr_written = []\<rparr>) \<and>
   RunPSWithContext (sample_ext resp_soap_200)
      (sample_client ''https://host/wsman'' (BasicAuth basic_transporter)) []
     = (([], [], 1, Some (Error ''cannot encode the given command'' None)),
        \<lparr>main_trace = [], stdin_task = [], stdout_task = [], stderr_task = [],
         stdout_written = [], stderr_written = []\<rparr>)"
proof -
  have p: "Powershell (sample_ext resp_soap_200) [] = []"
    by (simp add: sample_ext_def)
  from RunPS_with_empty_encoding_calls_nothing [OF p] show ?thesis
    by (simp add: errors_New_def no_effects_def)
qed

text \<open>
  Claim C8. \<open>RunWithContext\<close> is \<open>RunWithContextWithInput\<close> with a nil reader. With a nil
  reader the first goroutine does nothing but \<open>wg.Done()\<close>: it neither writes to nor
  closes the command's stdin. When the goroutines are started, each of the three ends with
  its \<open>wg.Done()\<close>, against the \<open>wg.Add(3)\<close> of the main goroutine.
\<close>

theorem nil_stdin_completes_at_once:
  "RunWithContext ext c command = RunWithContextWithInput ext c command None \<and>
   stdin_goroutine None = [wg_Done] \<and>
   (stdin_task (snd (RunWithContextWithInput ext c command None)) = [] \<or>
    stdin_task (snd (RunWithContextWithInput ext c command None)) = [wg_Done]) \<and>
   (\<forall>shell evs cmd.
      CreateShell ext c = (Inr shell, evs) \<and> ExecuteWithContext ext shell command = Inr cmd \<longrightarrow>
      stdin_task (snd (RunWithContextWithInput ext c command None)) = [wg_Done] \<and>
      stdout_task (snd (RunWithContextWithInput ext c command None)) = [Copy_from_Stdout, wg_Done] \<and>
      stderr_task (snd (RunWithContextWithInput ext c command None)) = [Copy_from_Stderr, wg_Done] \<and>
      main_trace (snd (RunWithContextWithInput ext c command None)) =
        evs @ [Called_ExecuteWithContext command, wg_Add 3, cmd_Wait, wg_Wait, cmd_Close,
               Called_Shell_Close (Shell_Close ext shell)])"
  by (auto simp: RunWithContext_def RunWithContextWithInput_def stdin_goroutine_def
      no_effects_def split: prod.splits sum.splits)

text \<open>The theorem of C8 on a command that runs, with a nil reader and with a reader.\<close>

theorem nil_stdin_completes_at_once_witness:
  "RunWithContext (sample_ext resp_soap_200)
      (sample_client ''https://host/wsman'' (BasicAuth basic_transporter)) ''dir''
     = RunWithContextWithInput (sample_ext resp_soap_200)
      (sample_client ''https://host/wsman'' (BasicAuth basic_transporter)) ''dir'' None \<and>
   stdin_task (snd (RunWithContextWithInput (sample_ext resp_soap_200)
      (sample_client ''https://host/wsman'' (BasicAuth basic_transporter)) ''dir'' None))
     = [wg_Done] \<and>
   stdin_task (snd (RunWithContextWithInput (sample_ext resp_soap_200)
      (sample_client ''https://host/wsman'' (BasicAuth basic_transporter)) ''dir'' (Some ''x'')))
     = [Copy_to_Stdin ''x'', Stdin_Close, wg_Done]"
proof -
  have x: "ExecuteWithContext (sample_ext resp_soap_200) sh ''dir'' = Inr sample_command" for sh
    by (simp add: sample_ext_def)
  have s: "stdin_task (snd (RunWithContextWithInput (sample_ext resp_soap_200)
      (sample_client ''https://host/wsman'' (BasicAuth basic_transporter)) ''dir'' (Some ''x'')))
     = [Copy_to_Stdin ''x'', Stdin_Close, wg_Done]"
    by (simp add: RunWithContextWithInput_after_CreateShell [OF sample_CreateShell] x
        stdin_goroutine_def)
  from nil_stdin_completes_at_once
    [of "sample_ext resp_soap_200"
        "sample_client ''https://host/wsman'' (BasicAuth basic_transporter)" "''dir''"]
    sample_CreateShell x s
  show ?thesis by blast
qed

end
